theory Spec2Isabelle
  imports Complex_Main "HOL-Library.Sublist" "HOL-Library.Log_Nat"
begin

section \<open>Image classification gallery app: data model\<close>

text \<open>
  The module \<^verbatim>\<open>gallery/image_classification/image_classification.py\<close> wraps six
  pretrained Keras classifiers. Everything numerical is delegated to external
  libraries (Keras, PIL, numpy, pandas, altair, streamlit); the module itself is the
  record \<^verbatim>\<open>KerasApplication\<close>, its methods, the registry and \<^verbatim>\<open>main\<close>.

  Probabilities are binary floating-point numbers. A float is modelled by the rational
  it denotes, and every arithmetic operation on floats gives the exact result rounded
  to the nearest number of the float format, ties to even, as IEEE 754 prescribes.
  Infinities, NaN, negative zero and overflow are outside the model; the numbers
  handled here are probabilities and percentages.
\<close>

type_synonym prediction = "string \<times> string \<times> rat"

text \<open>The model constructors and preprocessing functions imported from
  \<^verbatim>\<open>keras.applications\<close> are names of the external library.\<close>

datatype keras_application_ctor = ResNet50 | VGG16 | VGG19 | InceptionV3 | Xception | MobileNetV2

datatype preprocess_input_fn = imagenet_utils_preprocess_input | inception_v3_preprocess_input

record KerasApplication =
  name :: string
  keras_application :: keras_application_ctor
  input_shape :: "int \<times> int"
  preprocess_input_func :: preprocess_input_fn
  url :: string

text \<open>The NamedTuple's constructor with its three defaulted fields.\<close>

definition new_KerasApplication ::
  "string \<Rightarrow> keras_application_ctor \<Rightarrow> (int \<times> int) option \<Rightarrow> preprocess_input_fn option
     \<Rightarrow> string option \<Rightarrow> KerasApplication" where
  "new_KerasApplication n k shape_arg func_arg url_arg =
     \<lparr> name = n,
       keras_application = k,
       input_shape = (case shape_arg of None \<Rightarrow> (224, 224) | Some s \<Rightarrow> s),
       preprocess_input_func =
         (case func_arg of None \<Rightarrow> imagenet_utils_preprocess_input | Some f \<Rightarrow> f),
       url = (case url_arg of None \<Rightarrow> ''https://keras.io/applications/'' | Some u \<Rightarrow> u) \<rparr>"

definition KERAS_APPLICATIONS :: "KerasApplication list" where
  "KERAS_APPLICATIONS =
     [ new_KerasApplication ''ResNet50'' ResNet50 None None
         (Some ''https://keras.io/applications/#resnet''),
       new_KerasApplication ''VGG16'' VGG16 None None
         (Some ''https://keras.io/applications/#vgg16''),
       new_KerasApplication ''VGG19'' VGG19 None None
         (Some ''https://keras.io/applications/#vgg19''),
       new_KerasApplication ''InceptionV3'' InceptionV3 (Some (299, 299))
         (Some inception_v3_preprocess_input)
         (Some ''https://keras.io/applications/#inceptionv3''),
       new_KerasApplication ''Xception'' Xception (Some (299, 299))
         (Some inception_v3_preprocess_input)
         (Some ''https://keras.io/applications/#xception''),
       new_KerasApplication ''MobileNetV2'' MobileNetV2 None None
         (Some ''https://keras.io/applications/#mobilenet'') ]"

definition IMAGE_TYPES :: "string list" where
  "IMAGE_TYPES = [''png'', ''jpg'']"

datatype error = IndexError | LibraryError string

section \<open>Floating-point arithmetic, rounding and formatting\<close>

text \<open>Round half to even, the rule of numpy's \<^verbatim>\<open>rint\<close>, of Python's float
  formatting and of IEEE arithmetic.\<close>

definition round_half_even :: "rat \<Rightarrow> int" where
  "round_half_even x =
     (let f = \<lfloor>x\<rfloor>; d = x - of_int f
      in if d < 1 / 2 then f
         else if 1 / 2 < d then f + 1
         else if even f then f else f + 1)"

text \<open>The two float formats that occur: Python's \<^verbatim>\<open>float\<close> and the columns of a
  data frame are binary64, the scores of a Keras network are binary32. A format is its
  precision (bits of the significand) and its smallest normal exponent.\<close>

datatype float_format = binary32 | binary64

fun precision :: "float_format \<Rightarrow> int" where
  "precision binary32 = 24"
| "precision binary64 = 53"

fun emin :: "float_format \<Rightarrow> int" where
  "emin binary32 = - 126"
| "emin binary64 = - 1022"

text \<open>The binary exponent of a positive rational \<open>x\<close>: the \<open>e\<close> with
  \<open>2\<^sup>e \<le> x < 2\<^sup>e\<^sup>+\<^sup>1\<close>, from the bit lengths of numerator and denominator.\<close>

definition ilog2 :: "rat \<Rightarrow> int" where
  "ilog2 x =
     (let (a, b) = quotient_of x; d = bitlen a - bitlen b
      in if 2 powi d \<le> x then d else d - 1)"

text \<open>Rounding to the format: the nearest multiple of the unit in the last place of
  the binade of \<open>x\<close> (of the subnormal range below the smallest normal exponent),
  ties to even.\<close>

definition fl :: "float_format \<Rightarrow> rat \<Rightarrow> rat" where
  "fl fmt x =
     (if x = 0 then 0
      else let e = max (ilog2 \<bar>x\<bar>) (emin fmt);
               ulp = 2 powi (e - precision fmt + 1)
           in of_int (round_half_even (x / ulp)) * ulp)"

definition fmul :: "float_format \<Rightarrow> rat \<Rightarrow> rat \<Rightarrow> rat" where
  "fmul fmt x y = fl fmt (x * y)"

definition fdiv :: "float_format \<Rightarrow> rat \<Rightarrow> rat \<Rightarrow> rat" where
  "fdiv fmt x y = fl fmt (x / y)"

text \<open>The float that a decimal literal of the source or the spec denotes, such as
  \<^verbatim>\<open>0.87\<close>.\<close>

definition float_literal :: "rat \<Rightarrow> rat" where
  "float_literal q = fl binary64 q"

text \<open>\<^verbatim>\<open>Series.round(decimals)\<close> on a binary64 column, as numpy computes it:
  multiply by the power of ten, \<^verbatim>\<open>rint\<close>, divide by the power of ten.\<close>

definition series_round :: "nat \<Rightarrow> rat \<Rightarrow> rat" where
  "series_round decimals x =
     fdiv binary64 (of_int (round_half_even (fmul binary64 x (10 ^ decimals)))) (10 ^ decimals)"

fun decimal :: "nat \<Rightarrow> string" where
  "decimal n =
     (if n < 10 then [''0123456789'' ! n]
      else decimal (n div 10) @ [''0123456789'' ! (n mod 10)])"

declare decimal.simps [simp del]

text \<open>The format specification \<^verbatim>\<open>.0f\<close> applied to a float: sign, then the integer
  nearest to the float's value (half to even), no decimal point.\<close>

definition format_0f :: "rat \<Rightarrow> string" where
  "format_0f x = (if x < 0 then ''-'' else []) @ decimal (nat \<bar>round_half_even x\<bar>)"

text \<open>\<^verbatim>\<open>str.capitalize\<close> on ASCII text, which the ImageNet class names are: the
  first character upper-cased, the others lower-cased, everything that is not an ASCII
  letter left as it is. On text outside ASCII Python follows the Unicode case tables,
  which are not modelled; what is proved about \<open>capitalize\<close> is for ASCII labels.\<close>

definition ascii_lowercase :: string where
  "ascii_lowercase = ''abcdefghijklmnopqrstuvwxyz''"

definition ascii_uppercase :: string where
  "ascii_uppercase = ''ABCDEFGHIJKLMNOPQRSTUVWXYZ''"

definition upper_char :: "char \<Rightarrow> char" where
  "upper_char c =
     (case map_of (zip ascii_lowercase ascii_uppercase) c of None \<Rightarrow> c | Some u \<Rightarrow> u)"

definition lower_char :: "char \<Rightarrow> char" where
  "lower_char c =
     (case map_of (zip ascii_uppercase ascii_lowercase) c of None \<Rightarrow> c | Some l \<Rightarrow> l)"

fun capitalize :: "string \<Rightarrow> string" where
  "capitalize [] = []"
| "capitalize (c # cs) = upper_char c # map lower_char cs"

section \<open>Presentation: summary sentence and chart\<close>

text \<open>\<^verbatim>\<open>predictions[0]\<close> raises IndexError on the empty list. The product
  \<^verbatim>\<open>prob * 100\<close> is a float product in the format \<open>fmt\<close> of the arithmetic on the
  probability: binary64 for a Python float; for a binary32 score of numpy it is
  numpy's promotion rule that decides.\<close>

fun to_main_prediction_string :: "float_format \<Rightarrow> prediction list \<Rightarrow> error + string" where
  "to_main_prediction_string fmt [] = Inl IndexError"
| "to_main_prediction_string fmt ((_, prediction, prob) # _) =
     Inr (''It's a **'' @ capitalize prediction @ ''** with probability ''
            @ format_0f (fmul fmt prob 100) @ ''%'')"

text \<open>The data frame has the three named columns; each row is one input tuple. Its
  probability column is binary64.\<close>

record DataFrame =
  columns :: "string list"
  rows :: "prediction list"

datatype sort_order = ascending | descending

record EncodingSortField =
  sort_field :: string
  sort_order :: sort_order

record Y_encoding =
  shorthand :: string
  y_sort :: EncodingSortField

datatype mark = mark_bar

record Chart =
  chart_data :: DataFrame
  chart_mark :: mark
  encode_x :: string
  encode_y :: Y_encoding

definition round_probability_column :: "DataFrame \<Rightarrow> DataFrame" where
  "round_probability_column dataframe =
     dataframe \<lparr> rows := map (\<lambda>(i, prediction, prob).
                                 (i, prediction, fmul binary64 (series_round 2 prob) 100))
                            (rows dataframe) \<rparr>"

definition to_predictions_chart :: "prediction list \<Rightarrow> Chart" where
  "to_predictions_chart predictions =
     (let dataframe = \<lparr> columns = [''id'', ''prediction'', ''probability''],
                        rows = predictions \<rparr>;
          dataframe = round_probability_column dataframe
      in \<lparr> chart_data = dataframe,
           chart_mark = mark_bar,
           encode_x = ''probability'',
           encode_y = \<lparr> shorthand = ''prediction:N'',
                        y_sort = \<lparr> sort_field = ''probability'',
                                 sort_order = descending \<rparr> \<rparr> \<rparr>)"

section \<open>The external libraries\<close>

text \<open>
  PIL, Keras and numpy are not part of the module. Their functions are parameters of
  the model: a value of the record below fixes what each call returns, and any call
  may raise. \<open>'img\<close> is the type of decoded images, \<open>'arr\<close> the type of numeric
  arrays; \<open>Image_size\<close> (width, height), \<open>Image_bands\<close> and \<open>ndarray_shape\<close>
  observe them. An uploaded file is a byte string.

  \<open>load_weights k n\<close> is the outcome of the \<open>n\<close>-th constructor call
  \<^verbatim>\<open>k(weights="imagenet")\<close> of the process, so that a download may fail once and
  succeed later. \<open>score_format\<close> is the float format in which the library evaluates
  arithmetic on the probabilities that \<open>decode_predictions\<close> returns.
\<close>

record ('img, 'arr) library =
  Image_open :: "string \<Rightarrow> error + 'img"
  Image_size :: "'img \<Rightarrow> int \<times> int"
  Image_bands :: "'img \<Rightarrow> int"
  Image_resize :: "'img \<Rightarrow> int \<times> int \<Rightarrow> error + 'img"
  img_to_array :: "'img \<Rightarrow> error + 'arr"
  expand_dims :: "'arr \<Rightarrow> nat \<Rightarrow> error + 'arr"
  ndarray_shape :: "'arr \<Rightarrow> int list"
  call_preprocess_input :: "preprocess_input_fn \<Rightarrow> 'arr \<Rightarrow> error + 'arr"
  load_weights :: "keras_application_ctor \<Rightarrow> nat \<Rightarrow> error + unit"
  model_predict :: "keras_application_ctor \<Rightarrow> 'arr \<Rightarrow> error + 'arr"
  decode_predictions :: "'arr \<Rightarrow> error + prediction list list"
  score_format :: float_format

text \<open>A network object: its identity (the number of the constructor call that made it)
  and its architecture. Reference equality of two handles is equality of
  \<open>model_ref\<close>.\<close>

datatype model = Model (model_ref: nat) (model_ctor: keras_application_ctor)

text \<open>The process state: environment variables, the memo store behind
  \<^verbatim>\<open>@st.cache()\<close>, the number of constructor calls made so far, and the state the
  progress callback acts on.\<close>

record 'u world =
  environ :: "string \<rightharpoonup> string"
  cache_store :: "KerasApplication \<rightharpoonup> model"
  constructor_calls :: nat
  ui :: 'u

section \<open>KerasApplication methods\<close>

definition to_input_shape ::
  "('img, 'arr) library \<Rightarrow> KerasApplication \<Rightarrow> 'img \<Rightarrow> error + 'img" where
  "to_input_shape lib self img = Image_resize lib img (input_shape self)"

text \<open>The undecorated body of \<^verbatim>\<open>get_model\<close>: one constructor call.\<close>

definition get_model_body ::
  "('img, 'arr) library \<Rightarrow> KerasApplication \<Rightarrow> 'u world \<Rightarrow> (error + model) \<times> 'u world" where
  "get_model_body lib self w =
     (let n = constructor_calls w; w' = w \<lparr> constructor_calls := n + 1 \<rparr>
      in case load_weights lib (keras_application self) n of
           Inl e \<Rightarrow> (Inl e, w')
         | Inr _ \<Rightarrow> (Inr (Model n (keras_application self)), w'))"

text \<open>
  Modelled from the spec: the decorator \<^verbatim>\<open>st.cache\<close> belongs to the UI framework
  and is not in the module. The spec describes it as memoisation per profile for the
  lifetime of the process, with no invalidation: a stored result is returned without
  running the body; otherwise the body runs and its result, if it returns one, is stored
  under the argument. A raised exception stores nothing.
\<close>

definition st_cache ::
  "(KerasApplication \<Rightarrow> 'u world \<Rightarrow> (error + model) \<times> 'u world)
     \<Rightarrow> KerasApplication \<Rightarrow> 'u world \<Rightarrow> (error + model) \<times> 'u world" where
  "st_cache body self w =
     (case cache_store w self of
        Some m \<Rightarrow> (Inr m, w)
      | None \<Rightarrow>
          (case body self w of
             (Inl e, w') \<Rightarrow> (Inl e, w')
           | (Inr m, w') \<Rightarrow> (Inr m, w' \<lparr> cache_store := (cache_store w')(self \<mapsto> m) \<rparr>)))"

definition get_model ::
  "('img, 'arr) library \<Rightarrow> KerasApplication \<Rightarrow> 'u world \<Rightarrow> (error + model) \<times> 'u world" where
  "get_model lib = st_cache (get_model_body lib)"

definition preprocess_input ::
  "('img, 'arr) library \<Rightarrow> KerasApplication \<Rightarrow> 'img \<Rightarrow> error + 'arr" where
  "preprocess_input lib self img =
     (case to_input_shape lib self img of
        Inl e \<Rightarrow> Inl e
      | Inr img \<Rightarrow>
     (case img_to_array lib img of
        Inl e \<Rightarrow> Inl e
      | Inr img \<Rightarrow>
     (case expand_dims lib img 0 of
        Inl e \<Rightarrow> Inl e
      | Inr img \<Rightarrow> call_preprocess_input lib (preprocess_input_func self) img)))"

definition loading_message :: "KerasApplication \<Rightarrow> string" where
  "loading_message self =
     ''Loading '' @ name self
       @ '' model ... (This might take from seconds to several minutes)''"

definition classifying_message :: "KerasApplication \<Rightarrow> string" where
  "classifying_message self =
     ''Classifying image with '' @ [CHR 0x27] @ name self @ [CHR 0x27] @ ''... ''"

text \<open>
  The progress callback acts on the \<open>ui\<close> component only. An exception leaves the
  effects made before it in place, so the state is returned on both branches. The
  last callback call comes before \<^verbatim>\<open>top_predictions[0]\<close> is evaluated.
\<close>

definition get_top_predictions ::
  "('img, 'arr) library \<Rightarrow> KerasApplication \<Rightarrow> 'img \<Rightarrow> (string \<Rightarrow> int \<Rightarrow> 'u \<Rightarrow> 'u)
     \<Rightarrow> 'u world \<Rightarrow> (error + prediction list) \<times> 'u world" where
  "get_top_predictions lib self img report_progress_func w =
     (let w = w \<lparr> ui := report_progress_func (loading_message self) 10 (ui w) \<rparr>
      in case get_model lib self w of
           (Inl e, w) \<Rightarrow> (Inl e, w)
         | (Inr model, w) \<Rightarrow>
     (let w = w \<lparr> ui := report_progress_func ''Processing image ... '' 67 (ui w) \<rparr>
      in case preprocess_input lib self img of
           Inl e \<Rightarrow> (Inl e, w)
         | Inr img \<Rightarrow>
     (let w = w \<lparr> ui := report_progress_func (classifying_message self) 85 (ui w) \<rparr>
      in case model_predict lib (model_ctor model) img of
           Inl e \<Rightarrow> (Inl e, w)
         | Inr predictions \<Rightarrow>
     (case decode_predictions lib predictions of
           Inl e \<Rightarrow> (Inl e, w)
         | Inr top_predictions \<Rightarrow>
     (let w = w \<lparr> ui := report_progress_func [] 0 (ui w) \<rparr>
      in case top_predictions of
           [] \<Rightarrow> (Inl IndexError, w)
         | first # _ \<Rightarrow> (Inr first, w))))))"

section \<open>The page and the controller\<close>

definition get_resources_markdown :: "KerasApplication \<Rightarrow> string" where
  "get_resources_markdown model =
     ''### Resources\<newline>\<newline>'' @
     ''- [Keras](https://keras.io/)\<newline>'' @
     ''  - [Keras Apps](https://keras.io/applications)\<newline>'' @
     ''    - ['' @ name model @ '' Docs]('' @ url model @ '')\<newline>'' @
     ''- Images\<newline>'' @
     ''  - [ImageNet](http://www.image-net.org/)\<newline>'' @
     ''  - [Awesome Images](https://github.com/heyalexej/awesome-images)\<newline>''"

definition module_doc :: string where
  "module_doc =
     ''# Image Classification\<newline>\<newline>'' @
     ''This is an image classifier app that enables a user to\<newline>\<newline>'' @
     ''- select a **classifier model**,\<newline>'' @
     ''- upload an image\<newline>\<newline>'' @
     ''and get a prediction/ classification in return.\<newline>\<newline>'' @
     ''This app is inspired by the [imageNet](https://github.com/iamatulsingh/imageNet-streamlit)\<newline>'' @
     ''application developed by awesome [Atul Kumar Singh](https://github.com/iamatulsingh).''"

text \<open>What the script has put on the page: the main column and the sidebar, in
  call order. A placeholder made by \<^verbatim>\<open>st.empty()\<close> is a slot of the main column,
  known by its index, whose content later calls replace.\<close>

datatype element =
    Title string
  | Info string
  | Selectbox string "string list"
  | File_uploader string "string list"
  | Image string
  | Empty
  | Progress int
  | Markdown string
  | Subheader string
  | Write string
  | Altair_chart Chart

record page =
  body :: "element list"
  sidebar :: "element list"

definition st_body :: "element \<Rightarrow> page world \<Rightarrow> page world" where
  "st_body el w = w \<lparr> ui := (ui w) \<lparr> body := body (ui w) @ [el] \<rparr> \<rparr>"

definition st_sidebar :: "element \<Rightarrow> page world \<Rightarrow> page world" where
  "st_sidebar el w = w \<lparr> ui := (ui w) \<lparr> sidebar := sidebar (ui w) @ [el] \<rparr> \<rparr>"

definition set_environ :: "'u world \<Rightarrow> 'u world" where
  "set_environ w = w \<lparr> environ := (environ w)(''TF_CPP_MIN_LOG_LEVEL'' \<mapsto> ''2'') \<rparr>"

text \<open>The closure \<^verbatim>\<open>report_progress\<close> of \<^verbatim>\<open>main\<close>, over its two placeholders.\<close>

definition report_progress :: "nat \<Rightarrow> nat \<Rightarrow> string \<Rightarrow> int \<Rightarrow> page \<Rightarrow> page" where
  "report_progress progress progress_bar message v pg =
     (if v = 0
      then pg \<lparr> body := (body pg)[progress_bar := Empty, progress := Empty] \<rparr>
      else pg \<lparr> body := (body pg)[progress_bar := Progress v, progress := Markdown message] \<rparr>)"

text \<open>
  The two user inputs of a script run are arguments: \<open>choice\<close> is the index picked
  in the select box (the widget returns one of its options; it starts at the first),
  \<open>upload\<close> is what the file uploader returns, \<open>None\<close> while no file is selected.
\<close>

definition selectbox :: "'a list \<Rightarrow> nat \<Rightarrow> 'a" where
  "selectbox options choice = options ! (if choice < length options then choice else 0)"

definition main ::
  "('img, 'arr) library \<Rightarrow> nat \<Rightarrow> string option \<Rightarrow> page world \<Rightarrow> (error + unit) \<times> page world" where
  "main lib choice upload w =
     (let w = set_environ w;
          w = st_body (Title ''Image Classification with Keras and Tensorflow.'') w;
          w = st_body (Info module_doc) w;
          selected_model = selectbox KERAS_APPLICATIONS choice;
          w = st_sidebar (Selectbox ''Pick an image classifier model''
                            (map name KERAS_APPLICATIONS)) w;
          w = st_sidebar (Info (get_resources_markdown selected_model)) w;
          w = st_body (File_uploader ''Upload a file for classification'' IMAGE_TYPES) w
      in case upload of
           None \<Rightarrow> (Inr (), w)
         | Some file \<Rightarrow>
     (let w = st_body (Image file) w
      in case Image_open lib file of
           Inl e \<Rightarrow> (Inl e, w)
         | Inr img \<Rightarrow>
     (let progress_bar = length (body (ui w));
          w = st_body Empty w;
          progress = length (body (ui w));
          w = st_body Empty w
      in case get_top_predictions lib selected_model img
                (report_progress progress progress_bar) w of
           (Inl e, w) \<Rightarrow> (Inl e, w)
         | (Inr predictions, w) \<Rightarrow>
     (let w = st_body (Subheader ''Main Prediction'') w
      in case to_main_prediction_string (score_format lib) predictions of
           Inl e \<Rightarrow> (Inl e, w)
         | Inr main_prediction \<Rightarrow>
     (let w = st_body (Write main_prediction) w;
          w = st_body (Subheader ''Alternative Predictions'') w;
          predictions_chart = to_predictions_chart predictions;
          w = st_body (Altair_chart predictions_chart) w
      in (Inr (), w))))))"

text \<open>
  Modelled from the spec: the UI framework reruns the whole script top to bottom on
  each user interaction, inside one process. A run starts on a fresh page; the
  environment, the memo store and the constructor count carry over.
\<close>

definition fresh_page :: page where
  "fresh_page = \<lparr> body = [], sidebar = [] \<rparr>"

fun session ::
  "('img, 'arr) library \<Rightarrow> (nat \<times> string option) list \<Rightarrow> page world \<Rightarrow> page world" where
  "session lib [] w = w"
| "session lib ((choice, upload) # interactions) w =
     session lib interactions (snd (main lib choice upload (w \<lparr> ui := fresh_page \<rparr>)))"

definition process_start :: "page world" where
  "process_start =
     \<lparr> environ = Map.empty, cache_store = Map.empty, constructor_calls = 0, ui = fresh_page \<rparr>"

section \<open>What the module relies on from its libraries\<close>

text \<open>
  The documented behaviour of the calls \<^verbatim>\<open>preprocess_input\<close> makes. Whenever a call
  returns: \<^verbatim>\<open>Image.resize\<close> takes (width, height) and keeps the bands;
  \<^verbatim>\<open>img_to_array\<close> gives a (height, width, channels) array; \<^verbatim>\<open>np.expand_dims\<close>
  with axis 0 puts a dimension of size 1 in front; the normalisation functions keep the
  shape. On an image of 3 bands (RGB) every call returns. Nothing is assumed about
  whether a call returns on images of another number of bands: the default normaliser
  subtracts a mean from channels 0, 1 and 2 and raises on an array that lacks them.
\<close>

definition shape_contract :: "('img, 'arr) library \<Rightarrow> bool" where
  "shape_contract lib \<longleftrightarrow>
     (\<forall>img s r. Image_resize lib img s = Inr r \<longrightarrow>
        Image_size lib r = s \<and> Image_bands lib r = Image_bands lib img) \<and>
     (\<forall>img a. img_to_array lib img = Inr a \<longrightarrow>
        ndarray_shape lib a
          = [snd (Image_size lib img), fst (Image_size lib img), Image_bands lib img]) \<and>
     (\<forall>a b. expand_dims lib a 0 = Inr b \<longrightarrow> ndarray_shape lib b = 1 # ndarray_shape lib a) \<and>
     (\<forall>f a b. call_preprocess_input lib f a = Inr b \<longrightarrow>
        ndarray_shape lib b = ndarray_shape lib a) \<and>
     (\<forall>img w h. 0 < w \<and> 0 < h \<and> Image_bands lib img = 3 \<longrightarrow>
        (\<exists>r. Image_resize lib img (w, h) = Inr r)) \<and>
     (\<forall>img. Image_bands lib img = 3 \<longrightarrow> (\<exists>a. img_to_array lib img = Inr a)) \<and>
     (\<forall>a h w. ndarray_shape lib a = [h, w, 3] \<longrightarrow> (\<exists>b. expand_dims lib a 0 = Inr b)) \<and>
     (\<forall>f a n h w. ndarray_shape lib a = [n, h, w, 3] \<longrightarrow>
        (\<exists>b. call_preprocess_input lib f a = Inr b))"

definition ranked :: "prediction list \<Rightarrow> bool" where
  "ranked ps = sorted_wrt (\<lambda>p q. snd (snd q) \<le> snd (snd p)) ps"

definition probabilities :: "prediction list \<Rightarrow> bool" where
  "probabilities ps = list_all (\<lambda>p. 0 \<le> snd (snd p) \<and> snd (snd p) \<le> 1) ps"

text \<open>
  The spec's description of the pretrained model library: decoding maps a network's
  output to labelled tuples ranked by probability, each probability in [0, 1].
\<close>

definition decode_contract :: "('img, 'arr) library \<Rightarrow> bool" where
  "decode_contract lib \<longleftrightarrow>
     (\<forall>k x y tops. model_predict lib k x = Inr y \<and> decode_predictions lib y = Inr tops
        \<longrightarrow> list_all (\<lambda>t. ranked t \<and> probabilities t) tops)"

text \<open>
  A stub library, as in the spec's test scenario: an image is (width, height, bands), an
  array is its shape, and decoding always gives the list
  \<^verbatim>\<open>[("n01", "cat", 0.87), ("n02", "dog", 0.05)]\<close>. As in Keras, the default
  normaliser raises IndexError on an array with fewer than 3 channels, whose channel 1
  or 2 it cannot index.
\<close>

definition stub_predictions :: "prediction list" where
  "stub_predictions = [(''n01'', ''cat'', 87 / 100), (''n02'', ''dog'', 5 / 100)]"

definition stub_library :: "(int \<times> int \<times> int, int list) library" where
  "stub_library =
     \<lparr> Image_open = (\<lambda>file. Inr (640, 480, 3)),
       Image_size = (\<lambda>(w, h, b). (w, h)),
       Image_bands = (\<lambda>(w, h, b). b),
       Image_resize = (\<lambda>(w, h, b) (w', h').
          if 0 < w' \<and> 0 < h' then Inr (w', h', b) else Inl (LibraryError ''ValueError'')),
       img_to_array = (\<lambda>(w, h, b). Inr [h, w, b]),
       expand_dims = (\<lambda>a axis. Inr (take axis a @ 1 # drop axis a)),
       ndarray_shape = (\<lambda>a. a),
       call_preprocess_input = (\<lambda>f a.
          if f = imagenet_utils_preprocess_input \<and> length a = 4 \<and> a ! 3 < 3
          then Inl IndexError else Inr a),
       load_weights = (\<lambda>k n. Inr ()),
       model_predict = (\<lambda>k a. Inr [1, 1000]),
       decode_predictions = (\<lambda>a. Inr [stub_predictions]),
       score_format = binary64 \<rparr>"

text \<open>
  The chart's probability column as the spec words it: the probability scaled to
  percent, then rounded to 2 decimals. It is compared with the column the code
  computes.
\<close>

definition spec_chart_probability :: "rat \<Rightarrow> rat" where
  "spec_chart_probability prob = series_round 2 (fmul binary64 prob 100)"

text \<open>
  The summary's percentage as the spec words it: \<open>k\<close> is the probability rounded to
  the nearest percent when no whole percentage is nearer to the probability.
\<close>

definition nearest_percent :: "rat \<Rightarrow> int \<Rightarrow> bool" where
  "nearest_percent prob k \<longleftrightarrow> \<bar>of_int k - prob * 100\<bar> \<le> 1 / 2"

text \<open>
  What the numeral and the capitalised label are measured against: the number that a
  string of decimal digits denotes, and the case mapping of ASCII by character code
  (the lower-case letters are 97 to 122, the upper-case letters 65 to 90).
\<close>

definition digit_value :: "char \<Rightarrow> nat" where
  "digit_value c = of_char c - 48"

definition decimal_value :: "string \<Rightarrow> nat" where
  "decimal_value s = foldl (\<lambda>v c. 10 * v + digit_value c) 0 s"

definition ascii_upper_code :: "nat \<Rightarrow> nat" where
  "ascii_upper_code n = (if 97 \<le> n \<and> n \<le> 122 then n - 32 else n)"

definition ascii_lower_code :: "nat \<Rightarrow> nat" where
  "ascii_lower_code n = (if 65 \<le> n \<and> n \<le> 90 then n + 32 else n)"

definition ascii_text :: "string \<Rightarrow> bool" where
  "ascii_text s = list_all (\<lambda>c. (of_char c :: nat) < 128) s"

text \<open>
  The default callback \<^verbatim>\<open>print\<close>: each call writes its two arguments to standard
  output, modelled as the list of the argument pairs written so far.
\<close>

definition print_call :: "string \<Rightarrow> int \<Rightarrow> (string \<times> int) list \<Rightarrow> (string \<times> int) list" where
  "print_call message v out = out @ [(message, v)]"

definition console_start :: "(string \<times> int) list world" where
  "console_start =
     \<lparr> environ = Map.empty, cache_store = Map.empty, constructor_calls = 0, ui = [] \<rparr>"

section \<open>Rounding lemmas\<close>

lemma nearest_of_bracket:
  fixes f :: int and x :: rat
  assumes "of_int f \<le> x" and "x < of_int f + 1"
  shows "\<bar>of_int (if x - of_int f < 1 / 2 then f
                  else if 1 / 2 < x - of_int f then f + 1
                  else if even f then f else f + 1) - x\<bar> \<le> 1 / 2"
  using assms by (simp add: abs_if)

lemma round_half_even_near: "\<bar>of_int (round_half_even x) - x\<bar> \<le> 1 / 2"
proof -
  have "of_int \<lfloor>x\<rfloor> \<le> x" and "x < of_int \<lfloor>x\<rfloor> + 1"
    by linarith+
  from nearest_of_bracket [OF this] show ?thesis
    unfolding round_half_even_def Let_def .
qed

lemma round_half_even_nonneg: "0 \<le> x \<Longrightarrow> 0 \<le> round_half_even x"
  unfolding round_half_even_def Let_def by (auto intro: add_nonneg_nonneg)

subsection \<open>The exponent and the rounding error of a float operation\<close>

lemma bitlen_powi:
  assumes "0 < a"
  shows "2 powi (bitlen a - 1) \<le> (of_int a :: rat) \<and> (of_int a :: rat) < 2 powi (bitlen a)"
proof -
  from bitlen_bounds [OF assms]
  have i: "2 ^ nat (bitlen a - 1) \<le> a" "a < 2 ^ nat (bitlen a)" by simp_all
  have pos: "1 \<le> bitlen a"
    using assms by (simp add: bitlen_alt_def)
  have "(of_int (2 ^ nat (bitlen a - 1)) :: rat) \<le> of_int a"
    using i(1) by (simp only: of_int_le_iff)
  moreover have "(of_int a :: rat) < of_int (2 ^ nat (bitlen a))"
    using i(2) by (simp only: of_int_less_iff)
  ultimately show ?thesis
    using pos by (simp add: power_int_def)
qed

lemma ilog2_bounds:
  assumes "0 < x"
  shows "2 powi (ilog2 x) \<le> x \<and> x < 2 powi (ilog2 x + 1)"
proof -
  obtain a b where q: "quotient_of x = (a, b)" by (cases "quotient_of x")
  then have x: "x = of_int a / of_int b" and b: "0 < b"
    by (simp_all add: quotient_of_div quotient_of_denom_pos)
  with assms have a: "0 < a"
    by (simp add: zero_less_divide_iff)
  define la where "la = bitlen a"
  define lb where "lb = bitlen b"
  have la: "2 powi (la - 1) \<le> (of_int a :: rat)" "(of_int a :: rat) < 2 powi la"
    using bitlen_powi [OF a] by (simp_all add: la_def)
  have lb: "2 powi (lb - 1) \<le> (of_int b :: rat)" "(of_int b :: rat) < 2 powi lb"
    using bitlen_powi [OF b] by (simp_all add: lb_def)
  have bpos: "(0::rat) < of_int b" using b by simp
  have "2 powi (la - lb - 1) * of_int b \<le> 2 powi (la - lb - 1) * (2 powi lb :: rat)"
    using lb(2) by (intro mult_left_mono) simp_all
  also have "\<dots> = 2 powi (la - 1)"
    by (simp add: power_int_add [symmetric])
  also have "\<dots> \<le> of_int a" by (rule la(1))
  finally have low: "2 powi (la - lb - 1) \<le> x"
    using bpos by (simp add: x pos_le_divide_eq)
  have "of_int a < (2 powi la :: rat)" by (rule la(2))
  also have "\<dots> = 2 powi (la - lb + 1) * 2 powi (lb - 1)"
    by (simp add: power_int_add [symmetric])
  also have "\<dots> \<le> 2 powi (la - lb + 1) * of_int b"
    using lb(1) by (intro mult_left_mono) simp_all
  finally have high: "x < 2 powi (la - lb + 1)"
    using bpos by (simp add: x pos_divide_less_eq)
  have ilog: "ilog2 x = (if 2 powi (la - lb) \<le> x then la - lb else la - lb - 1)"
    by (simp add: ilog2_def q la_def lb_def Let_def)
  show ?thesis
  proof (cases "2 powi (la - lb) \<le> x")
    case True
    with high show ?thesis by (simp add: ilog)
  next
    case False
    with low show ?thesis by (simp add: ilog not_le)
  qed
qed

text \<open>A float operation is off by at most half a unit in the last place: the relative
  error is at most \<open>2\<^sup>-\<^sup>p\<close> in the normal range.\<close>

lemma fl_error:
  "\<bar>fl fmt x - x\<bar> \<le> max \<bar>x\<bar> (2 powi emin fmt) / 2 powi precision fmt"
proof (cases "x = 0")
  case True
  then show ?thesis by (simp add: fl_def)
next
  case False
  define e where "e = max (ilog2 \<bar>x\<bar>) (emin fmt)"
  define ulp :: rat where "ulp = 2 powi (e - precision fmt + 1)"
  have ulp: "0 < ulp" by (simp add: ulp_def)
  have flx: "fl fmt x = of_int (round_half_even (x / ulp)) * ulp"
    using False by (simp add: fl_def Let_def e_def ulp_def)
  have "fl fmt x - x = (of_int (round_half_even (x / ulp)) - x / ulp) * ulp"
    using ulp by (simp add: flx left_diff_distrib)
  then have "\<bar>fl fmt x - x\<bar> = \<bar>of_int (round_half_even (x / ulp)) - x / ulp\<bar> * ulp"
    using ulp by (simp add: abs_mult)
  also have "\<dots> \<le> 1 / 2 * ulp"
    using ulp round_half_even_near [of "x / ulp"] by (intro mult_right_mono) simp_all
  also have "\<dots> = 2 powi e / 2 powi precision fmt"
    by (simp add: ulp_def power_int_add power_int_diff)
  also have "\<dots> \<le> max \<bar>x\<bar> (2 powi emin fmt) / 2 powi precision fmt"
  proof -
    have "2 powi e \<le> max \<bar>x\<bar> (2 powi emin fmt)"
    proof (cases "ilog2 \<bar>x\<bar> \<le> emin fmt")
      case True
      then show ?thesis by (simp add: e_def max_def)
    next
      case False
      then have "e = ilog2 \<bar>x\<bar>" by (simp add: e_def)
      moreover have "2 powi (ilog2 \<bar>x\<bar>) \<le> \<bar>x\<bar>"
        using ilog2_bounds [of "\<bar>x\<bar>"] \<open>x \<noteq> 0\<close> by simp
      ultimately show ?thesis by simp
    qed
    then show ?thesis
      by (intro divide_right_mono) simp_all
  qed
  finally show ?thesis .
qed

lemma fl_nonneg: "0 \<le> x \<Longrightarrow> 0 \<le> fl fmt x"
  unfolding fl_def Let_def
  by (auto intro!: mult_nonneg_nonneg round_half_even_nonneg divide_nonneg_nonneg)

lemma fl_error_unit:
  assumes "0 \<le> x" and "x \<le> c" and "1 \<le> c"
  shows "\<bar>fl fmt x - x\<bar> \<le> c / 2 powi precision fmt"
proof -
  have "2 powi emin fmt \<le> (1::rat)"
    by (cases fmt) simp_all
  with assms have "max \<bar>x\<bar> (2 powi emin fmt) \<le> c" by simp
  then have "max \<bar>x\<bar> (2 powi emin fmt) / 2 powi precision fmt \<le> c / 2 powi precision fmt"
    by (intro divide_right_mono) simp_all
  with fl_error [of fmt x] show ?thesis by linarith
qed

subsection \<open>Percentages\<close>

lemma percent_near:
  assumes "0 \<le> p" and "p \<le> 1"
  shows "\<bar>of_int (round_half_even (fmul fmt p 100)) - p * 100\<bar>
           \<le> 1 / 2 + 100 / 2 powi precision fmt"
proof -
  have "\<bar>fl fmt (p * 100) - p * 100\<bar> \<le> 100 / 2 powi precision fmt"
    using assms by (intro fl_error_unit) simp_all
  moreover have "\<bar>of_int (round_half_even (fl fmt (p * 100))) - fl fmt (p * 100)\<bar> \<le> 1 / 2"
    by (rule round_half_even_near)
  ultimately show ?thesis
    unfolding fmul_def by linarith
qed

lemma chart_value_near:
  assumes "0 \<le> p" and "p \<le> 1"
  shows "\<bar>fmul binary64 (series_round 2 p) 100 - of_int (round_half_even (fmul binary64 p 100))\<bar>
           \<le> 1 / 2 ^ 45"
proof -
  define u :: rat where "u = 1 / 2 ^ 53"
  define y where "y = fl binary64 (p * 100)"
  define k where "k = round_half_even y"
  define r where "r = fl binary64 (of_int k / 100)"
  define v where "v = fl binary64 (r * 100)"
  have u: "c / 2 powi precision binary64 = c * u" for c :: rat
    by (simp add: u_def)
  have err: "\<bar>fl binary64 x - x\<bar> \<le> c * u" if "0 \<le> x" "x \<le> c" "1 \<le> c" for x c
    using fl_error_unit [OF that, of binary64] unfolding u .
  have usmall: "0 < u" "u \<le> 1 / 1000" by (simp_all add: u_def)
  have y: "0 \<le> y" "\<bar>y - p * 100\<bar> \<le> 100 * u"
    unfolding y_def using assms by (auto intro: fl_nonneg err)
  have k0: "0 \<le> k" using y(1) by (simp add: k_def round_half_even_nonneg)
  have "\<bar>of_int k - y\<bar> \<le> 1 / 2" unfolding k_def by (rule round_half_even_near)
  with y(2) assms usmall have "(of_int k :: rat) < 101" by linarith
  then have k100: "k \<le> 100" by linarith
  have kq: "0 \<le> (of_int k :: rat) / 100" "(of_int k :: rat) / 100 \<le> 1"
    using k0 k100 by simp_all
  have r: "0 \<le> r" "\<bar>r - of_int k / 100\<bar> \<le> 1 * u"
    unfolding r_def using kq(1) err [OF kq] by (simp_all only: fl_nonneg)
  have r100: "\<bar>r * 100 - of_int k\<bar> \<le> 100 * u"
    using r(2) by linarith
  have rle: "r * 100 \<le> 101"
    using r100 k100 usmall by linarith
  have "0 \<le> r * 100" using r(1) by simp
  then have "\<bar>v - r * 100\<bar> \<le> 101 * u"
    unfolding v_def using rle by (auto intro: err)
  with r100 have "\<bar>v - of_int k\<bar> \<le> 201 * u" by linarith
  also have "\<dots> \<le> 1 / 2 ^ 45" by (simp add: u_def)
  finally show ?thesis
    by (simp add: v_def r_def k_def y_def series_round_def fmul_def fdiv_def)
qed

subsection \<open>Decimal numerals\<close>

lemma digit_of_nth:
  assumes "n < 10"
  shows "digit_value (''0123456789'' ! n) = n \<and> ''0123456789'' ! n \<in> set ''0123456789''"
proof -
  from assms have "n \<in> {0, 1, 2, 3, 4, 5, 6, 7, 8, 9}" by auto
  then show ?thesis
    by (auto simp: digit_value_def)
qed

lemma decimal_value_snoc: "decimal_value (s @ [c]) = 10 * decimal_value s + digit_value c"
  by (simp add: decimal_value_def)

lemma decimal_value_decimal: "decimal_value (decimal n) = n"
proof (induction n rule: decimal.induct)
  case (1 n)
  show ?case
  proof (cases "n < 10")
    case True
    then show ?thesis
      by (subst decimal.simps) (simp add: decimal_value_def digit_of_nth)
  next
    case False
    then have "decimal_value (decimal (n div 10)) = n div 10" by (rule "1.IH")
    with False show ?thesis
      by (subst decimal.simps) (simp add: decimal_value_snoc digit_of_nth)
  qed
qed

lemma decimal_digits: "set (decimal n) \<subseteq> set ''0123456789'' \<and> decimal n \<noteq> []"
proof (induction n rule: decimal.induct)
  case (1 n)
  show ?case
  proof (cases "n < 10")
    case True
    then show ?thesis
      using digit_of_nth [of n] by (subst (1 2) decimal.simps) simp
  next
    case False
    then have "set (decimal (n div 10)) \<subseteq> set ''0123456789'' \<and> decimal (n div 10) \<noteq> []"
      by (rule "1.IH")
    with False show ?thesis
      using digit_of_nth [of "n mod 10"] by (subst (1 2) decimal.simps) simp
  qed
qed

subsection \<open>Case mapping\<close>

lemma code_in_range:
  fixes c :: char
  assumes "lo \<le> (of_char c :: nat)" and "of_char c \<le> lo + 25"
  shows "c \<in> set (map char_of [lo ..< lo + 26])"
proof -
  have "(of_char c :: nat) \<in> set [lo ..< lo + 26]"
    using assms by auto
  then have "char_of (of_char c :: nat) \<in> char_of ` set [lo ..< lo + 26]"
    by (rule imageI)
  then show ?thesis by simp
qed

lemma lower_letters: "map char_of [97 ..< 97 + 26 :: nat] = ascii_lowercase"
  by code_simp

lemma upper_letters: "map char_of [65 ..< 65 + 26 :: nat] = ascii_uppercase"
  by code_simp

lemma upper_char_code: "of_char (upper_char c) = ascii_upper_code (of_char c)"
proof (cases "c \<in> set ascii_lowercase")
  case True
  then show ?thesis
    by (auto simp: ascii_lowercase_def ascii_uppercase_def upper_char_def ascii_upper_code_def)
next
  case False
  have "\<not> (97 \<le> (of_char c :: nat) \<and> (of_char c :: nat) \<le> 97 + 25)"
  proof
    assume "97 \<le> (of_char c :: nat) \<and> (of_char c :: nat) \<le> 97 + 25"
    then have "c \<in> set (map char_of [97 ..< 97 + 26 :: nat])"
      using code_in_range [of 97 c] by blast
    then have "c \<in> set ascii_lowercase" by (simp only: lower_letters)
    with False show False ..
  qed
  moreover from False have "map_of (zip ascii_lowercase ascii_uppercase) c = None"
    by (simp add: map_of_zip_is_None ascii_lowercase_def ascii_uppercase_def)
  ultimately show ?thesis
    by (auto simp: upper_char_def ascii_upper_code_def)
qed

lemma lower_char_code: "of_char (lower_char c) = ascii_lower_code (of_char c)"
proof (cases "c \<in> set ascii_uppercase")
  case True
  then show ?thesis
    by (auto simp: ascii_lowercase_def ascii_uppercase_def lower_char_def ascii_lower_code_def)
next
  case False
  have "\<not> (65 \<le> (of_char c :: nat) \<and> (of_char c :: nat) \<le> 65 + 25)"
  proof
    assume "65 \<le> (of_char c :: nat) \<and> (of_char c :: nat) \<le> 65 + 25"
    then have "c \<in> set (map char_of [65 ..< 65 + 26 :: nat])"
      using code_in_range [of 65 c] by blast
    then have "c \<in> set ascii_uppercase" by (simp only: upper_letters)
    with False show False ..
  qed
  moreover from False have "map_of (zip ascii_uppercase ascii_lowercase) c = None"
    by (simp add: map_of_zip_is_None ascii_lowercase_def ascii_uppercase_def)
  ultimately show ?thesis
    by (auto simp: lower_char_def ascii_lower_code_def)
qed

lemma capitalize_codes:
  "map of_char (capitalize s)
     = (case map of_char s of [] \<Rightarrow> [] | c # cs \<Rightarrow> ascii_upper_code c # map ascii_lower_code cs)"
  by (cases s) (simp_all add: upper_char_code lower_char_code)

subsection \<open>The chart's rows\<close>

lemma rows_chart:
  "rows (chart_data (to_predictions_chart ps))
     = map (\<lambda>(i, l, p). (i, l, fmul binary64 (series_round 2 p) 100)) ps"
  by (simp add: to_predictions_chart_def round_probability_column_def)

subsection \<open>Values of the chart's column\<close>

lemma chart_value_87: "fmul binary64 (series_round 2 (float_literal (87 / 100))) 100 = 87"
  by code_simp

lemma chart_value_5: "fmul binary64 (series_round 2 (float_literal (5 / 100))) 100 = 5"
  by code_simp

lemma chart_value_29:
  "fmul binary64 (series_round 2 (float_literal (29 / 100))) 100 = 29 - 1 / 2 ^ 48"
  by code_simp

lemma chart_value_eighth: "fmul binary64 (series_round 2 (1 / 8)) 100 = 12"
  by code_simp

lemma spec_value_eighth: "spec_chart_probability (1 / 8) = 25 / 2"
  by code_simp

lemma chart_value_87q: "fmul binary64 (series_round 2 (87 / 100)) 100 = 87"
  by code_simp

lemma chart_value_5q: "fmul binary64 (series_round 2 (5 / 100)) 100 = 5"
  by code_simp

section \<open>The clauses of the shape contract\<close>

lemma contract_resize:
  "shape_contract lib \<Longrightarrow> Image_resize lib img s = Inr r \<Longrightarrow>
     Image_size lib r = s \<and> Image_bands lib r = Image_bands lib img"
  unfolding shape_contract_def by (elim conjE) fast

lemma contract_array:
  "shape_contract lib \<Longrightarrow> img_to_array lib img = Inr a \<Longrightarrow>
     ndarray_shape lib a
       = [snd (Image_size lib img), fst (Image_size lib img), Image_bands lib img]"
  unfolding shape_contract_def by (elim conjE) fast

lemma contract_expand:
  "shape_contract lib \<Longrightarrow> expand_dims lib a 0 = Inr b \<Longrightarrow>
     ndarray_shape lib b = 1 # ndarray_shape lib a"
  unfolding shape_contract_def by (elim conjE) fast

lemma contract_normalise:
  "shape_contract lib \<Longrightarrow> call_preprocess_input lib f a = Inr b \<Longrightarrow>
     ndarray_shape lib b = ndarray_shape lib a"
  unfolding shape_contract_def by (elim conjE) fast

lemma contract_resize_rgb:
  "shape_contract lib \<Longrightarrow> 0 < w \<Longrightarrow> 0 < h \<Longrightarrow> Image_bands lib img = 3 \<Longrightarrow>
     \<exists>r. Image_resize lib img (w, h) = Inr r"
  unfolding shape_contract_def by (elim conjE) fast

lemma contract_array_rgb:
  "shape_contract lib \<Longrightarrow> Image_bands lib img = 3 \<Longrightarrow> \<exists>a. img_to_array lib img = Inr a"
  unfolding shape_contract_def by (elim conjE) fast

lemma contract_expand_rgb:
  "shape_contract lib \<Longrightarrow> ndarray_shape lib a = [h, w, 3] \<Longrightarrow>
     \<exists>b. expand_dims lib a 0 = Inr b"
  unfolding shape_contract_def by (elim conjE) fast

lemma contract_normalise_rgb:
  "shape_contract lib \<Longrightarrow> ndarray_shape lib a = [n, h, w, 3] \<Longrightarrow>
     \<exists>b. call_preprocess_input lib f a = Inr b"
  unfolding shape_contract_def by (elim conjE) fast

section \<open>The stub library meets both contracts\<close>

lemma stub_shape_contract: "shape_contract stub_library"
  unfolding shape_contract_def stub_library_def
  by (auto split: if_splits)

lemma stub_decode_contract: "decode_contract stub_library"
  by (simp add: decode_contract_def stub_library_def stub_predictions_def ranked_def
        probabilities_def)

section \<open>The memo store\<close>

lemma get_model_frame:
  "get_model lib self w = (r, w') \<Longrightarrow> ui w' = ui w \<and> environ w' = environ w"
  by (auto simp: get_model_def st_cache_def get_model_body_def Let_def
           split: option.splits sum.splits prod.splits)

lemma get_model_memo:
  "get_model lib self w = (Inr m, w') \<Longrightarrow> get_model lib self w' = (Inr m, w')"
  by (auto simp: get_model_def st_cache_def get_model_body_def Let_def
           split: option.splits sum.splits prod.splits)

lemma get_model_calls:
  "get_model lib self w = (r, w') \<Longrightarrow>
     constructor_calls w \<le> constructor_calls w' \<and> constructor_calls w' \<le> constructor_calls w + 1"
  by (auto simp: get_model_def st_cache_def get_model_body_def Let_def
           split: option.splits sum.splits prod.splits)

lemma get_model_cache_mono:
  "get_model lib q w = (r, w') \<Longrightarrow> cache_store w p = Some m \<Longrightarrow> cache_store w' p = Some m"
  by (auto simp: get_model_def st_cache_def get_model_body_def Let_def
           split: option.splits sum.splits prod.splits)

lemma get_model_cached:
  "cache_store w self = Some m \<Longrightarrow> get_model lib self w = (Inr m, w)"
  by (simp add: get_model_def st_cache_def)

lemma get_model_stores:
  "get_model lib self w = (Inr m, w') \<Longrightarrow> cache_store w' self = Some m"
  by (auto simp: get_model_def st_cache_def get_model_body_def Let_def
           split: option.splits sum.splits prod.splits)

section \<open>The classification pipeline\<close>


text \<open>Where the run stops early, the callback has been called only for the stages
  begun: once when loading fails, twice when preprocessing fails.\<close>

lemma gtp_load_failure:
  "get_model lib self (w \<lparr> ui := f (loading_message self) 10 (ui w) \<rparr>) = (Inl e, w') \<Longrightarrow>
     get_top_predictions lib self img f w = (Inl e, w')
     \<and> ui w' = f (loading_message self) 10 (ui w)"
  by (frule get_model_frame) (simp add: get_top_predictions_def Let_def)

lemma gtp_preprocess_failure:
  "get_model lib self (w \<lparr> ui := f (loading_message self) 10 (ui w) \<rparr>) = (Inr m, w') \<Longrightarrow>
   preprocess_input lib self img = Inl e \<Longrightarrow>
     get_top_predictions lib self img f w
       = (Inl e, w' \<lparr> ui := f ''Processing image ... '' 67 (ui w') \<rparr>)
     \<and> ui w' = f (loading_message self) 10 (ui w)"
  by (frule get_model_frame) (simp add: get_top_predictions_def Let_def)

lemma gtp_ui_observer:
  assumes "\<And>m v u. obs (f m v u) = obs u"
    and "get_top_predictions lib self img f w = (r, w')"
  shows "obs (ui w') = obs (ui w)"
  using assms(2) unfolding get_top_predictions_def Let_def
  by (auto simp: assms(1) split: prod.splits sum.splits list.splits dest!: get_model_frame)

lemma gtp_cache_mono:
  "get_top_predictions lib q img f w = (r, w') \<Longrightarrow> cache_store w p = Some m
     \<Longrightarrow> cache_store w' p = Some m"
  unfolding get_top_predictions_def Let_def
  by (auto split: prod.splits sum.splits list.splits dest!: get_model_cache_mono)

lemma gtp_result:
  "get_top_predictions lib self img f w = (Inr r, w') \<Longrightarrow>
     \<exists>m x y tops.
        fst (get_model lib self (w \<lparr> ui := f (loading_message self) 10 (ui w) \<rparr>)) = Inr m
        \<and> preprocess_input lib self img = Inr x
        \<and> model_predict lib (model_ctor m) x = Inr y
        \<and> decode_predictions lib y = Inr tops \<and> tops \<noteq> [] \<and> r = tops ! 0"
  unfolding get_top_predictions_def Let_def
  by (auto split: prod.splits sum.splits list.splits)

section \<open>Script runs\<close>

lemma report_progress_sidebar: "sidebar (report_progress p b m v u) = sidebar u"
  by (simp add: report_progress_def)

lemma main_sidebar:
  "sidebar (ui (snd (main lib choice upload w))) =
     sidebar (ui w) @ [Selectbox ''Pick an image classifier model'' (map name KERAS_APPLICATIONS),
                       Info (get_resources_markdown (selectbox KERAS_APPLICATIONS choice))]"
  unfolding main_def Let_def
  by (auto simp: st_body_def st_sidebar_def set_environ_def
           split: prod.splits sum.splits option.splits
           dest!: gtp_ui_observer [where obs = sidebar, OF report_progress_sidebar])

lemma main_cache_mono:
  "cache_store w p = Some m \<Longrightarrow> cache_store (snd (main lib choice upload w)) p = Some m"
  unfolding main_def Let_def
  by (auto simp: st_body_def st_sidebar_def set_environ_def
           split: prod.splits sum.splits option.splits dest!: gtp_cache_mono)

lemma session_cache_mono:
  "cache_store w p = Some m \<Longrightarrow> cache_store (session lib interactions w) p = Some m"
proof (induction interactions arbitrary: w)
  case Nil
  then show ?case by simp
next
  case (Cons a interactions)
  obtain choice upload where a: "a = (choice, upload)" by (cases a)
  have "cache_store (w \<lparr> ui := fresh_page \<rparr>) p = Some m"
    using Cons.prems by simp
  then have "cache_store (snd (main lib choice upload (w \<lparr> ui := fresh_page \<rparr>))) p = Some m"
    by (rule main_cache_mono)
  then show ?case
    unfolding a by (simp add: Cons.IH)
qed

section \<open>Presentation formatter\<close>

text \<open>
  Claim C1, as the code has it. For every prediction list the chart's data frame has the
  columns id, prediction and probability and one row per input tuple; each row carries
  the class label and the probability rounded to 2 decimals and then multiplied by 100,
  in binary64 arithmetic. Rounding comes before scaling, so for a probability in [0, 1]
  the value is a whole number of percent up to float rounding: it is within
  \<open>2\<^sup>-\<^sup>4\<^sup>5\<close> of the integer nearest to the float product of the probability and
  100, and that integer is within \<open>1/2 + 100 / 2\<^sup>5\<^sup>3\<close> of the exact percentage. It is
  not a percentage with 2 decimals. On \<^verbatim>\<open>[("n01", "cat", 0.87), ("n02", "dog", 0.05)]\<close>
  the two rows have probability 87 and 5; the probability 0.29 gives
  \<open>29 - 2\<^sup>-\<^sup>4\<^sup>8\<close>, which prints as 28.999999999999996.
\<close>

theorem to_predictions_chart_rounds_then_scales:
  "map (\<lambda>(i, label, p). (label, p)) (rows (chart_data (to_predictions_chart predictions)))
     = map (\<lambda>(i, label, prob). (label, fmul binary64 (series_round 2 prob) 100)) predictions
   \<and> series_round 2 prob
       = fdiv binary64 (of_int (round_half_even (fmul binary64 prob 100))) 100
   \<and> (0 \<le> prob \<and> prob \<le> 1 \<longrightarrow>
        \<bar>fmul binary64 (series_round 2 prob) 100
            - of_int (round_half_even (fmul binary64 prob 100))\<bar> \<le> 1 / 2 ^ 45
        \<and> \<bar>of_int (round_half_even (fmul binary64 prob 100)) - prob * 100\<bar>
            \<le> 1 / 2 + 100 / 2 ^ 53)
   \<and> columns (chart_data (to_predictions_chart predictions))
       = [''id'', ''prediction'', ''probability'']
   \<and> rows (chart_data (to_predictions_chart
              [(''n01'', ''cat'', float_literal (87 / 100)),
               (''n02'', ''dog'', float_literal (5 / 100))]))
       = [(''n01'', ''cat'', 87), (''n02'', ''dog'', 5)]
   \<and> rows (chart_data (to_predictions_chart [(''n03'', ''fox'', float_literal (29 / 100))]))
       = [(''n03'', ''fox'', 29 - 1 / 2 ^ 48)]"
proof -
  have ex1: "rows (chart_data (to_predictions_chart
              [(''n01'', ''cat'', float_literal (87 / 100)),
               (''n02'', ''dog'', float_literal (5 / 100))]))
       = [(''n01'', ''cat'', 87), (''n02'', ''dog'', 5)]"
    by (simp only: rows_chart list.map prod.case chart_value_87 chart_value_5)
  have ex2: "rows (chart_data (to_predictions_chart [(''n03'', ''fox'', float_literal (29 / 100))]))
       = [(''n03'', ''fox'', 29 - 1 / 2 ^ 48)]"
    by (simp only: rows_chart list.map prod.case chart_value_29)
  have cols: "columns (chart_data (to_predictions_chart predictions))
       = [''id'', ''prediction'', ''probability'']"
    by (simp add: to_predictions_chart_def round_probability_column_def)
  have rws:
    "map (\<lambda>(i, label, p). (label, p)) (rows (chart_data (to_predictions_chart predictions)))
     = map (\<lambda>(i, label, prob). (label, fmul binary64 (series_round 2 prob) 100)) predictions"
    by (simp add: rows_chart case_prod_unfold)
  have sr: "series_round 2 prob
       = fdiv binary64 (of_int (round_half_even (fmul binary64 prob 100))) 100"
    by (simp add: series_round_def)
  have near: "0 \<le> prob \<and> prob \<le> 1 \<longrightarrow>
        \<bar>fmul binary64 (series_round 2 prob) 100
            - of_int (round_half_even (fmul binary64 prob 100))\<bar> \<le> 1 / 2 ^ 45
        \<and> \<bar>of_int (round_half_even (fmul binary64 prob 100)) - prob * 100\<bar>
            \<le> 1 / 2 + 100 / 2 ^ 53"
    using chart_value_near [of prob] percent_near [of prob binary64] by simp
  from rws sr near cols ex1 ex2 show ?thesis by (intro conjI)
qed

theorem to_predictions_chart_rounds_then_scales_witness:
  "0 \<le> float_literal (29 / 100) \<and> float_literal (29 / 100) \<le> 1
   \<and> fmul binary64 (series_round 2 (float_literal (29 / 100))) 100 = 29 - 1 / 2 ^ 48
   \<and> round_half_even (fmul binary64 (float_literal (29 / 100)) 100) = 29
   \<and> \<bar>(29 - 1 / 2 ^ 48) - (29 :: rat)\<bar> \<le> 1 / 2 ^ 45"
proof -
  have range: "0 \<le> float_literal (29 / 100) \<and> float_literal (29 / 100) \<le> 1"
    by code_simp
  have v: "fmul binary64 (series_round 2 (float_literal (29 / 100))) 100 = 29 - 1 / 2 ^ 48"
    by (rule chart_value_29)
  have k: "round_half_even (fmul binary64 (float_literal (29 / 100)) 100) = 29"
    by code_simp
  show ?thesis
    using to_predictions_chart_rounds_then_scales
            [where prob = "float_literal (29 / 100)" and predictions = "[]"] range v k
    by simp
qed

text \<open>
  Claim C1, as the spec words it, fails. For the probability 1/8 the percentage rounded
  to 2 decimals is 12.5, while the chart's row holds 12: the code rounds the
  probability to 0.12 before it multiplies by 100.
\<close>

theorem to_predictions_chart_not_percent_2dp:
  "snd (snd (rows (chart_data (to_predictions_chart [(''n01'', ''cat'', 1 / 8)])) ! 0)) = 12
   \<and> spec_chart_probability (1 / 8) = 25 / 2
   \<and> snd (snd (rows (chart_data (to_predictions_chart [(''n01'', ''cat'', 1 / 8)])) ! 0))
       \<noteq> spec_chart_probability (1 / 8)"
  by (simp add: rows_chart chart_value_eighth spec_value_eighth)

text \<open>
  Claim C2, as the code has it. On a non-empty prediction list the summary is the
  sentence built from the first entry: its label capitalised and the float product of
  its probability and 100 in the format \<^verbatim>\<open>.0f\<close>. For a probability that is not
  negative the number printed is the decimal numeral (digits only, denoting that
  number) of the integer nearest to the float product, ties to even; for a probability
  in [0, 1] that integer is within \<open>1/2 + 100 / 2\<^sup>p\<close> of the exact percentage, \<open>p\<close>
  the precision of the float format. For a label of ASCII text, capitalising maps
  the first character's code to upper case and the other codes to lower case. On
  \<^verbatim>\<open>[("n01", "cat", 0.87), ("n02", "dog", 0.05)]\<close> the sentence is
  \<^verbatim>\<open>It's a **Cat** with probability 87%\<close>, which contains \<^verbatim>\<open>Cat\<close> and \<^verbatim>\<open>87%\<close>.
\<close>

theorem to_main_prediction_string_top:
  "to_main_prediction_string fmt ((cid, label, prob) # others)
     = Inr (''It's a **'' @ capitalize label @ ''** with probability ''
              @ format_0f (fmul fmt prob 100) @ ''%'')
   \<and> (0 \<le> prob \<longrightarrow>
        format_0f (fmul fmt prob 100) = decimal (nat (round_half_even (fmul fmt prob 100))))
   \<and> decimal_value (decimal n) = n
   \<and> set (decimal n) \<subseteq> set ''0123456789''
   \<and> (0 \<le> prob \<and> prob \<le> 1 \<longrightarrow>
        \<bar>of_int (round_half_even (fmul fmt prob 100)) - prob * 100\<bar>
          \<le> 1 / 2 + 100 / 2 powi precision fmt)
   \<and> (ascii_text label \<longrightarrow>
        map of_char (capitalize label)
          = (case map of_char label of
               [] \<Rightarrow> []
             | c # cs \<Rightarrow> ascii_upper_code c # map ascii_lower_code cs))
   \<and> to_main_prediction_string binary64
        [(''n01'', ''cat'', float_literal (87 / 100)), (''n02'', ''dog'', float_literal (5 / 100))]
       = Inr ''It's a **Cat** with probability 87%''
   \<and> sublist ''Cat'' ''It's a **Cat** with probability 87%''
   \<and> sublist ''87%'' ''It's a **Cat** with probability 87%''"
proof -
  have sentence: "to_main_prediction_string fmt ((cid, label, prob) # others)
     = Inr (''It's a **'' @ capitalize label @ ''** with probability ''
              @ format_0f (fmul fmt prob 100) @ ''%'')"
    by simp
  have fmt: "0 \<le> prob \<longrightarrow>
        format_0f (fmul fmt prob 100) = decimal (nat (round_half_even (fmul fmt prob 100)))"
  proof
    assume "0 \<le> prob"
    then have "0 \<le> prob * 100" by simp
    then have scaled: "0 \<le> fmul fmt prob 100"
      unfolding fmul_def by (rule fl_nonneg)
    then have "0 \<le> round_half_even (fmul fmt prob 100)" by (rule round_half_even_nonneg)
    with scaled
    show "format_0f (fmul fmt prob 100) = decimal (nat (round_half_even (fmul fmt prob 100)))"
      by (simp add: format_0f_def)
  qed
  have near: "0 \<le> prob \<and> prob \<le> 1 \<longrightarrow>
        \<bar>of_int (round_half_even (fmul fmt prob 100)) - prob * 100\<bar>
          \<le> 1 / 2 + 100 / 2 powi precision fmt"
    using percent_near [of prob fmt] by simp
  have cap: "ascii_text label \<longrightarrow>
        map of_char (capitalize label)
          = (case map of_char label of
               [] \<Rightarrow> []
             | c # cs \<Rightarrow> ascii_upper_code c # map ascii_lower_code cs)"
    by (simp add: capitalize_codes)
  have ex: "to_main_prediction_string binary64
        [(''n01'', ''cat'', float_literal (87 / 100)), (''n02'', ''dog'', float_literal (5 / 100))]
       = Inr ''It's a **Cat** with probability 87%''"
    by code_simp
  have "''It's a **Cat** with probability 87%''
          = ''It's a **'' @ ''Cat'' @ ''** with probability 87%''"
    by simp
  then have s1: "sublist ''Cat'' ''It's a **Cat** with probability 87%''"
    by (metis sublist_appendI)
  have "''It's a **Cat** with probability 87%''
          = ''It's a **Cat** with probability '' @ ''87%'' @ []"
    by simp
  then have s2: "sublist ''87%'' ''It's a **Cat** with probability 87%''"
    by (metis sublist_appendI)
  have dv: "decimal_value (decimal n) = n" by (rule decimal_value_decimal)
  have dd: "set (decimal n) \<subseteq> set ''0123456789''" using decimal_digits [of n] by simp
  from sentence fmt dv dd near cap ex s1 s2 show ?thesis by (intro conjI)
qed

theorem to_main_prediction_string_top_witness:
  "0 \<le> float_literal (87 / 100) \<and> float_literal (87 / 100) \<le> 1
   \<and> ascii_text ''cat''
   \<and> format_0f (fmul binary64 (float_literal (87 / 100)) 100) = ''87''
   \<and> round_half_even (fmul binary64 (float_literal (87 / 100)) 100) = 87
   \<and> decimal 87 = ''87'' \<and> decimal_value ''87'' = 87
   \<and> map of_char (capitalize ''cat'') = [67, 97, 116 :: nat]
   \<and> capitalize ''eGYPTIAN_cat'' = ''Egyptian_cat''"
proof -
  have range: "0 \<le> float_literal (87 / 100) \<and> float_literal (87 / 100) \<le> 1"
    by code_simp
  have asc: "ascii_text ''cat''" by code_simp
  have f: "format_0f (fmul binary64 (float_literal (87 / 100)) 100) = ''87''" by code_simp
  have k: "round_half_even (fmul binary64 (float_literal (87 / 100)) 100) = 87" by code_simp
  have d: "decimal 87 = ''87''" by code_simp
  have c: "map of_char ''cat'' = [99, 97, 116 :: nat]" by simp
  have e: "capitalize ''eGYPTIAN_cat'' = ''Egyptian_cat''" by code_simp
  have u: "ascii_upper_code 99 = 67" "ascii_lower_code 97 = 97" "ascii_lower_code 116 = 116"
    by (simp_all add: ascii_upper_code_def ascii_lower_code_def)
  show ?thesis
    using to_main_prediction_string_top
            [where fmt = binary64 and cid = "''n01''" and label = "''cat''"
               and prob = "float_literal (87 / 100)"
               and others = "[(''n02'', ''dog'', float_literal (5 / 100))]" and n = 87]
      range asc f k d e
    by (simp add: c u)
qed

text \<open>
  Claim C2, as the spec words it, fails: the percentage printed is not always the one
  nearest to the probability. The float \<^verbatim>\<open>0.065\<close> is a little above 65/1000 and its
  nearest percentage is 7, but its float product with 100 is exactly 6.5, which the
  format rounds to the even 6.
\<close>

theorem to_main_prediction_string_not_nearest:
  "to_main_prediction_string binary64 [(''n01'', ''cat'', float_literal (65 / 1000))]
     = Inr ''It's a **Cat** with probability 6%''
   \<and> \<not> nearest_percent (float_literal (65 / 1000)) 6
   \<and> nearest_percent (float_literal (65 / 1000)) 7"
  by code_simp

section \<open>Preprocessing\<close>

text \<open>
  Claim C3, as the code has it. Let the library calls behave as documented. Whenever
  \<open>preprocess_input\<close> returns a tensor, the image has been resized, converted to an
  array, given a leading dimension and normalised by the profile's function, in that
  order, and the tensor's shape is 1 (the batch), the height and the width of
  \<open>input_shape\<close> = (width, height), and the image's bands, whatever the size of the
  image was. For every image of 3 bands and a profile whose \<open>input_shape\<close> has two
  positive components it does return a tensor.
\<close>

theorem preprocess_input_shape:
  assumes "shape_contract lib"
  shows "(preprocess_input lib self img = Inr tensor \<longrightarrow>
            ndarray_shape lib tensor
              = [1, snd (input_shape self), fst (input_shape self), Image_bands lib img]
          \<and> (\<exists>resized arr batch.
                to_input_shape lib self img = Inr resized
              \<and> img_to_array lib resized = Inr arr
              \<and> expand_dims lib arr 0 = Inr batch
              \<and> call_preprocess_input lib (preprocess_input_func self) batch = Inr tensor))
       \<and> (0 < fst (input_shape self) \<and> 0 < snd (input_shape self) \<and> Image_bands lib img = 3
            \<longrightarrow> (\<exists>t. preprocess_input lib self img = Inr t))"
proof (intro conjI impI)
  assume run: "preprocess_input lib self img = Inr tensor"
  then obtain resized arr batch where steps:
    "to_input_shape lib self img = Inr resized"
    "img_to_array lib resized = Inr arr"
    "expand_dims lib arr 0 = Inr batch"
    "call_preprocess_input lib (preprocess_input_func self) batch = Inr tensor"
    unfolding preprocess_input_def by (auto split: sum.splits)
  from steps(1) have "Image_resize lib img (input_shape self) = Inr resized"
    by (simp add: to_input_shape_def)
  from contract_resize [OF assms this]
  have r: "Image_size lib resized = input_shape self"
    "Image_bands lib resized = Image_bands lib img"
    by simp_all
  note a = contract_array [OF assms steps(2)]
  note b = contract_expand [OF assms steps(3)]
  note t = contract_normalise [OF assms steps(4)]
  show "ndarray_shape lib tensor
          = [1, snd (input_shape self), fst (input_shape self), Image_bands lib img]"
    by (simp add: t b a r)
  from steps show "\<exists>resized arr batch.
                to_input_shape lib self img = Inr resized
              \<and> img_to_array lib resized = Inr arr
              \<and> expand_dims lib arr 0 = Inr batch
              \<and> call_preprocess_input lib (preprocess_input_func self) batch = Inr tensor"
    by blast
next
  assume rgb: "0 < fst (input_shape self) \<and> 0 < snd (input_shape self) \<and> Image_bands lib img = 3"
  obtain w h where wh: "input_shape self = (w, h)" by (cases "input_shape self")
  with rgb have pos: "0 < w" "0 < h" "Image_bands lib img = 3" by simp_all
  from contract_resize_rgb [OF assms pos]
  obtain resized where rs: "Image_resize lib img (w, h) = Inr resized" ..
  from contract_resize [OF assms rs] pos(3)
  have r: "Image_size lib resized = (w, h)" "Image_bands lib resized = 3"
    by simp_all
  from contract_array_rgb [OF assms r(2)]
  obtain arr where ar: "img_to_array lib resized = Inr arr" ..
  from contract_array [OF assms ar] have a: "ndarray_shape lib arr = [h, w, 3]"
    by (simp add: r)
  from contract_expand_rgb [OF assms a]
  obtain batch where ba: "expand_dims lib arr 0 = Inr batch" ..
  from contract_expand [OF assms ba] have b: "ndarray_shape lib batch = [1, h, w, 3]"
    by (simp add: a)
  from contract_normalise_rgb [OF assms b]
  obtain t where "call_preprocess_input lib (preprocess_input_func self) batch = Inr t" ..
  then have "preprocess_input lib self img = Inr t"
    by (simp add: preprocess_input_def to_input_shape_def wh rs ar ba)
  then show "\<exists>t. preprocess_input lib self img = Inr t" ..
qed

theorem preprocess_input_shape_witness:
  "shape_contract stub_library
   \<and> 0 < fst (input_shape (KERAS_APPLICATIONS ! 3))
   \<and> 0 < snd (input_shape (KERAS_APPLICATIONS ! 3))
   \<and> Image_bands stub_library (640, 480, 3) = 3
   \<and> preprocess_input stub_library (KERAS_APPLICATIONS ! 3) (640, 480, 3)
       = Inr [1, 299, 299, 3]
   \<and> ndarray_shape stub_library [1, 299, 299, 3]
       = [1, snd (input_shape (KERAS_APPLICATIONS ! 3)),
             fst (input_shape (KERAS_APPLICATIONS ! 3)), 3]"
proof -
  have sh: "input_shape (KERAS_APPLICATIONS ! 3) = (299, 299)"
    by (simp add: KERAS_APPLICATIONS_def new_KerasApplication_def)
  have bands: "Image_bands stub_library (640, 480, 3) = 3"
    by (simp add: stub_library_def)
  have run: "preprocess_input stub_library (KERAS_APPLICATIONS ! 3) (640, 480, 3)
       = Inr [1, 299, 299, 3]"
    by code_simp
  have nd: "ndarray_shape stub_library [1, 299, 299, 3] = [1, 299, 299, 3]"
    by (simp add: stub_library_def)
  show ?thesis
    using preprocess_input_shape
            [OF stub_shape_contract, where self = "KERAS_APPLICATIONS ! 3"
               and img = "(640, 480, 3)" and tensor = "[1, 299, 299, 3]"]
      stub_shape_contract run bands
    by (simp add: sh nd)
qed

text \<open>
  Claim C3, as the spec words it, fails: not every decoded image yields a tensor. On a
  greyscale image, which has 1 band, the default normaliser of the ResNet50 profile
  raises IndexError, and \<open>preprocess_input\<close> returns nothing.
\<close>

theorem preprocess_input_greyscale_raises:
  "shape_contract stub_library
   \<and> Image_bands stub_library (640, 480, 1) = 1
   \<and> preprocess_input stub_library (KERAS_APPLICATIONS ! 0) (640, 480, 1) = Inl IndexError"
proof -
  have "Image_bands stub_library (640, 480, 1) = 1"
    by (simp add: stub_library_def)
  moreover have
    "preprocess_input stub_library (KERAS_APPLICATIONS ! 0) (640, 480, 1) = Inl IndexError"
    by code_simp
  ultimately show ?thesis
    using stub_shape_contract by simp
qed

section \<open>Classification\<close>



text \<open>
  Claim C5. Let the library decode a network's output into lists ranked by
  non-increasing probability with every probability in [0, 1]. Then every run of
  \<open>get_top_predictions\<close> that returns a list returns one that is so ranked and
  bounded, and the list is entry 0 of what the library decoded from the prediction
  of the profile's network on the preprocessed image.
\<close>

theorem get_top_predictions_ranked:
  assumes "decode_contract lib"
    and "fst (get_top_predictions lib self img f w) = Inr r"
  shows "ranked r \<and> probabilities r
       \<and> (\<exists>m x y tops.
            fst (get_model lib self (w \<lparr> ui := f (loading_message self) 10 (ui w) \<rparr>)) = Inr m
          \<and> preprocess_input lib self img = Inr x
          \<and> model_predict lib (model_ctor m) x = Inr y
          \<and> decode_predictions lib y = Inr tops \<and> tops \<noteq> [] \<and> r = tops ! 0)"
proof -
  from assms(2) have "get_top_predictions lib self img f w
                        = (Inr r, snd (get_top_predictions lib self img f w))"
    by (metis prod.collapse)
  from gtp_result [OF this] obtain m x y tops where
    run: "fst (get_model lib self (w \<lparr> ui := f (loading_message self) 10 (ui w) \<rparr>)) = Inr m"
      "preprocess_input lib self img = Inr x"
      "model_predict lib (model_ctor m) x = Inr y"
      "decode_predictions lib y = Inr tops" "tops \<noteq> []" "r = tops ! 0"
    by blast
  from assms(1) run(3,4) have "list_all (\<lambda>t. ranked t \<and> probabilities t) tops"
    unfolding decode_contract_def by blast
  with run(5,6) have "ranked r \<and> probabilities r"
    by (cases tops) simp_all
  with run show ?thesis by blast
qed

theorem get_top_predictions_ranked_witness:
  "decode_contract stub_library
   \<and> fst (get_top_predictions stub_library (KERAS_APPLICATIONS ! 3) (1024, 768, 3)
            print_call console_start)
       = Inr [(''n01'', ''cat'', 87 / 100), (''n02'', ''dog'', 5 / 100)]
   \<and> ranked [(''n01'', ''cat'', 87 / 100), (''n02'', ''dog'', 5 / 100)]
   \<and> probabilities [(''n01'', ''cat'', 87 / 100), (''n02'', ''dog'', 5 / 100)]"
proof -
  have completed: "fst (get_top_predictions stub_library (KERAS_APPLICATIONS ! 3) (1024, 768, 3)
            print_call console_start)
       = Inr [(''n01'', ''cat'', 87 / 100), (''n02'', ''dog'', 5 / 100)]"
    by code_simp
  show ?thesis
    using get_top_predictions_ranked [OF stub_decode_contract completed]
      stub_decode_contract completed
    by simp
qed

section \<open>Registry, memoisation and the upload gate\<close>

text \<open>
  Claim C6. The names of the registry's entries are pairwise distinct and both
  components of every \<open>input_shape\<close> are positive. The registry is a constant: no
  function takes it as state or returns it, and every script run, from any process
  state and with any inputs, offers exactly the registry's names, in order, in the
  select box.
\<close>

theorem registry_invariant:
  "distinct (map name KERAS_APPLICATIONS)
   \<and> list_all (\<lambda>a. 0 < fst (input_shape a) \<and> 0 < snd (input_shape a)) KERAS_APPLICATIONS
   \<and> sidebar (ui (snd (main lib choice upload w)))
       = sidebar (ui w) @
           [Selectbox ''Pick an image classifier model'' (map name KERAS_APPLICATIONS),
            Info (get_resources_markdown (selectbox KERAS_APPLICATIONS choice))]"
proof -
  have "distinct (map name KERAS_APPLICATIONS)"
    by (simp add: KERAS_APPLICATIONS_def new_KerasApplication_def)
  moreover have
    "list_all (\<lambda>a. 0 < fst (input_shape a) \<and> 0 < snd (input_shape a)) KERAS_APPLICATIONS"
    by (simp add: KERAS_APPLICATIONS_def new_KerasApplication_def)
  ultimately show ?thesis
    using main_sidebar [of lib choice upload w] by simp
qed

text \<open>
  Claim C7. If \<open>get_model\<close> returns a handle for a profile, then a second call on the
  same profile returns the same handle and leaves the process state as it is, so
  nothing is instantiated again; the first call made at most one constructor call; and
  after any number of further script runs in the same process \<open>get_model\<close> on that
  profile still returns that handle without changing the state.
\<close>

theorem get_model_memoized:
  assumes "fst (get_model lib self w) = Inr m"
  shows "get_model lib self (snd (get_model lib self w)) = (Inr m, snd (get_model lib self w))
       \<and> constructor_calls (snd (get_model lib self w)) \<le> constructor_calls w + 1
       \<and> get_model lib self (session lib interactions (snd (get_model lib self w)))
           = (Inr m, session lib interactions (snd (get_model lib self w)))"
proof -
  define w' where "w' = snd (get_model lib self w)"
  from assms have first: "get_model lib self w = (Inr m, w')"
    unfolding w'_def by (metis prod.collapse)
  have again: "get_model lib self w' = (Inr m, w')"
    using first by (rule get_model_memo)
  have calls: "constructor_calls w' \<le> constructor_calls w + 1"
    using get_model_calls [OF first] by simp
  have "cache_store w' self = Some m"
    using first by (rule get_model_stores)
  then have "cache_store (session lib interactions w') self = Some m"
    by (rule session_cache_mono)
  then have "get_model lib self (session lib interactions w')
               = (Inr m, session lib interactions w')"
    by (rule get_model_cached)
  with again calls show ?thesis
    unfolding w'_def by simp
qed

theorem get_model_memoized_witness:
  "fst (get_model stub_library (KERAS_APPLICATIONS ! 0) process_start) = Inr (Model 0 ResNet50)
   \<and> fst (get_model stub_library (KERAS_APPLICATIONS ! 0)
            (snd (get_model stub_library (KERAS_APPLICATIONS ! 0) process_start)))
       = Inr (Model 0 ResNet50)
   \<and> constructor_calls (snd (get_model stub_library (KERAS_APPLICATIONS ! 0) process_start)) = 1
   \<and> fst (get_model stub_library (KERAS_APPLICATIONS ! 0)
            (session stub_library [(3, Some ''bytes''), (0, None)]
               (snd (get_model stub_library (KERAS_APPLICATIONS ! 0) process_start))))
       = Inr (Model 0 ResNet50)"
proof -
  have first: "fst (get_model stub_library (KERAS_APPLICATIONS ! 0) process_start)
                 = Inr (Model 0 ResNet50)"
    by code_simp
  have calls:
    "constructor_calls (snd (get_model stub_library (KERAS_APPLICATIONS ! 0) process_start)) = 1"
    by code_simp
  show ?thesis
    using get_model_memoized [OF first, where interactions = "[(3, Some ''bytes''), (0, None)]"]
      first calls
    by simp
qed

text \<open>
  Claim C8. While no file is uploaded a script run ends normally after the upload
  control: the page holds the title, the description and the uploader, the sidebar the
  select box and the resources, and nothing else; the result does not depend on the
  library, so no image is opened and no classification is made; the memo store and
  the constructor count are unchanged.
\<close>

theorem main_without_upload:
  "main lib choice None w =
     (Inr (),
      w \<lparr> environ := (environ w)(''TF_CPP_MIN_LOG_LEVEL'' \<mapsto> ''2''),
          ui := \<lparr> body = body (ui w) @
                     [Title ''Image Classification with Keras and Tensorflow.'',
                      Info module_doc,
                      File_uploader ''Upload a file for classification'' [''png'', ''jpg'']],
                  sidebar = sidebar (ui w) @
                     [Selectbox ''Pick an image classifier model'' (map name KERAS_APPLICATIONS),
                      Info (get_resources_markdown (selectbox KERAS_APPLICATIONS choice))] \<rparr> \<rparr>)
   \<and> main lib choice None w = main lib' choice None w
   \<and> cache_store (snd (main lib choice None w)) = cache_store w
   \<and> constructor_calls (snd (main lib choice None w)) = constructor_calls w"
  by (simp add: main_def Let_def st_body_def st_sidebar_def set_environ_def IMAGE_TYPES_def)

text \<open>
  Claim C9. The rows of the chart's data frame are the input tuples in input order,
  each with its probability column recomputed: ids and labels appear in the order of
  the input. The descending sort is only the sort field of the y encoding. An input in
  ascending order of probability gives rows in ascending order.
\<close>

theorem to_predictions_chart_keeps_order:
  "rows (chart_data (to_predictions_chart predictions))
     = map (\<lambda>(i, label, prob). (i, label, fmul binary64 (series_round 2 prob) 100)) predictions
   \<and> map (\<lambda>(i, label, p). (i, label)) (rows (chart_data (to_predictions_chart predictions)))
     = map (\<lambda>(i, label, prob). (i, label)) predictions
   \<and> y_sort (encode_y (to_predictions_chart predictions))
     = \<lparr> sort_field = ''probability'', sort_order = descending \<rparr>
   \<and> rows (chart_data (to_predictions_chart
             [(''n02'', ''dog'', 5 / 100), (''n01'', ''cat'', 87 / 100)]))
     = [(''n02'', ''dog'', 5), (''n01'', ''cat'', 87)]"
proof -
  have "rows (chart_data (to_predictions_chart
             [(''n02'', ''dog'', 5 / 100), (''n01'', ''cat'', 87 / 100)]))
     = [(''n02'', ''dog'', 5), (''n01'', ''cat'', 87)]"
    by (simp only: rows_chart list.map prod.case chart_value_87q chart_value_5q)
  moreover have "y_sort (encode_y (to_predictions_chart predictions))
     = \<lparr> sort_field = ''probability'', sort_order = descending \<rparr>"
    by (simp add: to_predictions_chart_def)
  ultimately show ?thesis
    by (simp add: rows_chart case_prod_unfold)
qed

text \<open>
  Claim C10. The registry has six profiles, in the order ResNet50, VGG16, VGG19,
  InceptionV3, Xception, MobileNetV2. InceptionV3 and Xception have input shape
  (299, 299) and the Inception preprocessing function; the four others have the
  defaults of the constructor, (224, 224) and the imagenet preprocessing function,
  which is a different function.
\<close>

theorem registry_contents:
  "length KERAS_APPLICATIONS = 6
   \<and> map name KERAS_APPLICATIONS
       = [''ResNet50'', ''VGG16'', ''VGG19'', ''InceptionV3'', ''Xception'', ''MobileNetV2'']
   \<and> map keras_application KERAS_APPLICATIONS
       = [ResNet50, VGG16, VGG19, InceptionV3, Xception, MobileNetV2]
   \<and> map input_shape KERAS_APPLICATIONS
       = [(224, 224), (224, 224), (224, 224), (299, 299), (299, 299), (224, 224)]
   \<and> map preprocess_input_func KERAS_APPLICATIONS
       = [imagenet_utils_preprocess_input, imagenet_utils_preprocess_input,
          imagenet_utils_preprocess_input, inception_v3_preprocess_input,
          inception_v3_preprocess_input, imagenet_utils_preprocess_input]
   \<and> input_shape (new_KerasApplication n k None f u) = (224, 224)
   \<and> preprocess_input_func (new_KerasApplication n k s None u) = imagenet_utils_preprocess_input
   \<and> inception_v3_preprocess_input \<noteq> imagenet_utils_preprocess_input"
  by (simp add: KERAS_APPLICATIONS_def new_KerasApplication_def)

end
